theory Spec2Isabelle
  imports Main
begin

section \<open>Fatal paths\<close>

text \<open>
  The builder and its input providers (particle_function_builder.cpp) never return an
  error code for a broken contract: they stop. A stopped run is the left summand of the
  result type, so every assertion of the source is a branch of the model.
\<close>

datatype fatal = AssertionFailure | OutOfRange

text \<open>
  Modelled from the spec: the macro \<^verbatim>\<open>BLI_assert\<close> is declared outside src/. Section 7
  of the spec makes a violated assertion fatal: construction or evaluation is aborted
  immediately, nothing is defaulted.
\<close>

definition BLI_assert :: "bool \<Rightarrow> fatal + unit" where
  "BLI_assert a = (if a then Inr () else Inl AssertionFailure)"

text \<open>
  Modelled from the spec: \<^verbatim>\<open>ArrayRef::operator[]\<close> and \<^verbatim>\<open>SetVector::operator[]\<close> are
  declared outside src/. An index outside the collection is an index/count mismatch,
  which section 7 of the spec makes fatal.
\<close>

definition at_index :: "'a list \<Rightarrow> nat \<Rightarrow> fatal + 'a" where
  "at_index xs i = (if i < length xs then Inr (xs ! i) else Inl AssertionFailure)"

definition set_index :: "'a list \<Rightarrow> nat \<Rightarrow> 'a \<Rightarrow> fatal + 'a list" where
  "set_index xs i v = (if i < length xs then Inr (xs[i := v]) else Inl AssertionFailure)"

text \<open>
  A store through a raw pointer (\<^verbatim>\<open>ages[pindex] = ...\<close> on a \<^verbatim>\<open>float *\<close>). Past the end of
  the allocation C++ gives the store no meaning; the model stops there.
\<close>

definition store_raw :: "'a list \<Rightarrow> nat \<Rightarrow> 'a \<Rightarrow> fatal + 'a list" where
  "store_raw xs i v = (if i < length xs then Inr (xs[i := v]) else Inl OutOfRange)"

section \<open>The authoring tree\<close>

text \<open>
  \<^verbatim>\<open>VirtualSocket *\<close> and \<^verbatim>\<open>VirtualNode *\<close> are addresses; the tree that owns the objects
  is the store they are read from. Two sockets with the same name on nodes of the same
  kind are still two pointers.
\<close>

type_synonym vsocket_ptr = nat
type_synonym vnode_ptr = nat

record VirtualSocket =
  name :: string
  vnode :: vnode_ptr

record VirtualNode =
  idname :: string
  name :: string
  inputs :: "vsocket_ptr list"

record VirtualNodeTree =
  socket_at :: "vsocket_ptr \<Rightarrow> VirtualSocket"
  node_at :: "vnode_ptr \<Rightarrow> VirtualNode"

section \<open>What a provider reads at evaluation time\<close>

type_synonym addr = nat

text \<open>
  The attribute storage, the allocator, the particle times and the action context are
  declared outside src/; their accessors are the fields below, as the providers call
  them. \<^verbatim>\<open>float\<close> is the type parameter \<open>'f\<close> (any type with a subtraction), \<^verbatim>\<open>float3\<close>
  the parameter \<open>'n\<close>.
\<close>

record 'f AttributeArrays =
  attribute_index :: "string \<Rightarrow> nat"
  attribute_stride :: "nat \<Rightarrow> nat"
  get_ptr :: "nat \<Rightarrow> addr"
  get_float :: "string \<Rightarrow> 'f list"

record 'f ParticleSet =
  attributes :: "'f AttributeArrays"
  pindices :: "nat list"

text \<open>
  The batch-scoped allocator hands out arrays of \<open>array_size\<close> elements. \<open>allocated\<close>
  counts the arrays handed out so far; \<open>fresh_memory\<close> is what the next array holds
  before anything is written to it (C++ leaves it indeterminate).
\<close>

record 'f ArrayAllocator =
  array_size :: nat
  allocated :: nat
  fresh_memory :: "nat \<Rightarrow> 'f"

definition allocate :: "'f ArrayAllocator \<Rightarrow> 'f list \<times> 'f ArrayAllocator" where
  "allocate a = (map (fresh_memory a) [0 ..< array_size a], a\<lparr>allocated := Suc (allocated a)\<rparr>)"

text \<open>
  \<^verbatim>\<open>ParticleTimes::Type\<close>: the source tests for its two enumerators and asserts on
  anything else.
\<close>

datatype ParticleTimes_Type = Current | DurationAndEnd | Unrecognized

record 'f ParticleTimes =
  type :: ParticleTimes_Type
  current_times :: "'f list"
  remaining_durations :: "'f list"
  end_time :: 'f

record 'n CollisionEventInfo =
  normals :: "'n list"

datatype 'n ActionContext = CollisionEvent "'n CollisionEventInfo" | OtherEvent nat

text \<open>\<^verbatim>\<open>dynamic_cast<CollisionEventInfo *>\<close>: the null pointer for anything else.\<close>

fun dynamic_cast_CollisionEventInfo :: "'n ActionContext option \<Rightarrow> 'n CollisionEventInfo option" where
  "dynamic_cast_CollisionEventInfo (Some (CollisionEvent info)) = Some info"
| "dynamic_cast_CollisionEventInfo _ = None"

record ('f, 'n) InputProviderInterface =
  particles :: "'f ParticleSet"
  particle_times :: "'f ParticleTimes"
  action_context :: "'n ActionContext option"
  array_allocator :: "'f ArrayAllocator"

text \<open>
  \<^verbatim>\<open>ParticleFunctionInputArray\<close> is built in the source from a pointer, a stride and the
  ownership flag, or from an array and the ownership flag.
\<close>

datatype ('f, 'n) ParticleFunctionInputArray =
  InputArray_ptr addr nat bool
| InputArray_floats "'f list" bool
| InputArray_normals "'n list" bool

fun is_owned :: "('f, 'n) ParticleFunctionInputArray \<Rightarrow> bool" where
  "is_owned (InputArray_ptr buffer stride owned) = owned"
| "is_owned (InputArray_floats array owned) = owned"
| "is_owned (InputArray_normals array owned) = owned"

section \<open>Input providers\<close>

datatype ParticleFunctionInputProvider =
  AttributeInputProvider string
| CollisionNormalInputProvider
| AgeInputProvider

definition AttributeInputProvider_get ::
  "string \<Rightarrow> ('f, 'n) InputProviderInterface \<Rightarrow>
   fatal + (('f, 'n) ParticleFunctionInputArray \<times> ('f, 'n) InputProviderInterface)" where
  "AttributeInputProvider_get m_name interface =
     (let attrs = attributes (particles interface);
          index = attribute_index attrs m_name;
          stride = attribute_stride attrs index;
          buffer = get_ptr attrs index
      in Inr (InputArray_ptr buffer stride False, interface))"

definition CollisionNormalInputProvider_get ::
  "('f, 'n) InputProviderInterface \<Rightarrow>
   fatal + (('f, 'n) ParticleFunctionInputArray \<times> ('f, 'n) InputProviderInterface)" where
  "CollisionNormalInputProvider_get interface =
     (let ctx = action_context interface in
      case BLI_assert (ctx \<noteq> None) of
        Inl e \<Rightarrow> Inl e
      | Inr _ \<Rightarrow>
          (let collision_info = dynamic_cast_CollisionEventInfo ctx in
           case BLI_assert (collision_info \<noteq> None) of
             Inl e \<Rightarrow> Inl e
           | Inr _ \<Rightarrow> Inr (InputArray_normals (normals (the collision_info)) False, interface)))"

text \<open>The two loops of \<^verbatim>\<open>AgeInputProvider::get\<close> over the active particle indices.\<close>

fun ages_from_current_times ::
  "('f::minus) list \<Rightarrow> 'f list \<Rightarrow> nat list \<Rightarrow> 'f list \<Rightarrow> fatal + 'f list" where
  "ages_from_current_times cts bts [] ages = Inr ages"
| "ages_from_current_times cts bts (pindex # rest) ages =
     (case at_index cts pindex of
        Inl e \<Rightarrow> Inl e
      | Inr ct \<Rightarrow>
          (case at_index bts pindex of
             Inl e \<Rightarrow> Inl e
           | Inr bt \<Rightarrow>
               (case store_raw ages pindex (ct - bt) of
                  Inl e \<Rightarrow> Inl e
                | Inr ages' \<Rightarrow> ages_from_current_times cts bts rest ages')))"

fun ages_from_durations ::
  "('f::minus) \<Rightarrow> 'f list \<Rightarrow> 'f list \<Rightarrow> nat list \<Rightarrow> 'f list \<Rightarrow> fatal + 'f list" where
  "ages_from_durations et rds bts [] ages = Inr ages"
| "ages_from_durations et rds bts (pindex # rest) ages =
     (case at_index rds pindex of
        Inl e \<Rightarrow> Inl e
      | Inr rd \<Rightarrow>
          (case at_index bts pindex of
             Inl e \<Rightarrow> Inl e
           | Inr bt \<Rightarrow>
               (case store_raw ages pindex (et - rd - bt) of
                  Inl e \<Rightarrow> Inl e
                | Inr ages' \<Rightarrow> ages_from_durations et rds bts rest ages')))"

definition AgeInputProvider_get ::
  "('f::minus, 'n) InputProviderInterface \<Rightarrow>
   fatal + (('f, 'n) ParticleFunctionInputArray \<times> ('f, 'n) InputProviderInterface)" where
  "AgeInputProvider_get interface =
     (let birth_times = get_float (attributes (particles interface)) ''Birth Time'';
          (ages, allocator) = allocate (array_allocator interface);
          interface' = interface\<lparr>array_allocator := allocator\<rparr>;
          times = particle_times interface
      in case (if type times = Current then
                 ages_from_current_times (current_times times) birth_times
                   (pindices (particles interface)) ages
               else if type times = DurationAndEnd then
                 ages_from_durations (end_time times) (remaining_durations times) birth_times
                   (pindices (particles interface)) ages
               else (case BLI_assert False of Inl e \<Rightarrow> Inl e | Inr _ \<Rightarrow> Inr ages)) of
           Inl e \<Rightarrow> Inl e
         | Inr ages' \<Rightarrow>
             Inr (InputArray_floats (take (array_size allocator) ages') True, interface'))"

text \<open>The virtual call \<^verbatim>\<open>provider->get(interface)\<close>.\<close>

fun provider_get ::
  "ParticleFunctionInputProvider \<Rightarrow> ('f::minus, 'n) InputProviderInterface \<Rightarrow>
   fatal + (('f, 'n) ParticleFunctionInputArray \<times> ('f, 'n) InputProviderInterface)" where
  "provider_get (AttributeInputProvider m_name) interface = AttributeInputProvider_get m_name interface"
| "provider_get CollisionNormalInputProvider interface = CollisionNormalInputProvider_get interface"
| "provider_get AgeInputProvider interface = AgeInputProvider_get interface"

section \<open>The provider factory\<close>

text \<open>
  \<^verbatim>\<open>new\<close> gives a pointer to the provider (\<open>Some\<close>); \<^verbatim>\<open>nullptr\<close> is \<open>None\<close>. \<^verbatim>\<open>STREQ\<close>
  compares two C strings for equality.
\<close>

definition create_input_provider ::
  "VirtualNodeTree \<Rightarrow> vsocket_ptr \<Rightarrow> fatal + ParticleFunctionInputProvider option" where
  "create_input_provider vtree vsocket =
     (let vn = node_at vtree (vnode (socket_at vtree vsocket)) in
      if idname vn = ''bp_ParticleInfoNode'' then
        (if VirtualSocket.name (socket_at vtree vsocket) = ''Age'' then Inr (Some AgeInputProvider)
         else Inr (Some (AttributeInputProvider (VirtualSocket.name (socket_at vtree vsocket)))))
      else if idname vn = ''bp_CollisionInfoNode'' then Inr (Some CollisionNormalInputProvider)
      else (case BLI_assert False of Inl e \<Rightarrow> Inl e | Inr _ \<Rightarrow> Inr None))"

section \<open>The data graph\<close>

datatype DataSocket = DataSocket bool nat

type_synonym SharedDataGraph = nat

record PlaceholderDependencies =
  sockets :: "DataSocket list"
  vsockets :: "vsocket_ptr list"

text \<open>
  \<^verbatim>\<open>VTreeDataGraph\<close> is declared outside src/. \<open>lookup_socket_ptr\<close> gives the null
  pointer (\<open>None\<close>) for a virtual socket with no data socket. \<open>placeholder_sockets\<close> are
  the placeholder sockets a socket transitively depends on, in the order the graph
  reports them; \<open>origin_vsocket\<close> is the virtual socket a placeholder originates from.
\<close>

record VTreeDataGraph =
  lookup_socket_ptr :: "vsocket_ptr \<Rightarrow> DataSocket option"
  placeholder_sockets :: "DataSocket \<Rightarrow> DataSocket list"
  origin_vsocket :: "DataSocket \<Rightarrow> vsocket_ptr"
  graph :: SharedDataGraph

text \<open>
  Modelled from the spec: \<^verbatim>\<open>VTreeDataGraph::find_placeholder_dependencies\<close> and the
  \<^verbatim>\<open>size()\<close> of its result are defined outside src/. Section 3 of the spec: the data
  graph reports the runtime-only sockets S transitively depends on, plus the virtual
  sockets they originate from; the size is the size of that dependency set.
\<close>

definition find_placeholder_dependencies :: "VTreeDataGraph \<Rightarrow> DataSocket \<Rightarrow> PlaceholderDependencies" where
  "find_placeholder_dependencies data_graph socket =
     \<lparr>PlaceholderDependencies.sockets = placeholder_sockets data_graph socket,
      PlaceholderDependencies.vsockets = map (origin_vsocket data_graph) (placeholder_sockets data_graph socket)\<rparr>"

definition PlaceholderDependencies_size :: "PlaceholderDependencies \<Rightarrow> nat" where
  "PlaceholderDependencies_size d = length (PlaceholderDependencies.sockets d)"

text \<open>
  Modelled from the spec: \<^verbatim>\<open>SetVector\<close> is declared outside src/. Section 3 of the spec:
  the collections of the Dependency Set are deduplicated and insertion-ordered by first
  discovery, so adding a value that is already there changes nothing.
\<close>

definition SetVector_add :: "'a list \<Rightarrow> 'a \<Rightarrow> 'a list" where
  "SetVector_add xs x = (if x \<in> set xs then xs else xs @ [x])"

fun add_multiple :: "'a list \<Rightarrow> 'a list \<Rightarrow> 'a list" where
  "add_multiple xs [] = xs"
| "add_multiple xs (v # vs) = add_multiple (SetVector_add xs v) vs"

section \<open>The dependency analyzer\<close>

fun find_input_data_sockets_loop ::
  "VTreeDataGraph \<Rightarrow> vsocket_ptr list \<Rightarrow> DataSocket list \<Rightarrow> DataSocket list" where
  "find_input_data_sockets_loop data_graph [] found = found"
| "find_input_data_sockets_loop data_graph (vsocket # rest) found =
     (case lookup_socket_ptr data_graph vsocket of
        Some socket \<Rightarrow> find_input_data_sockets_loop data_graph rest (found @ [socket])
      | None \<Rightarrow> find_input_data_sockets_loop data_graph rest found)"

definition find_input_data_sockets :: "VirtualNodeTree \<Rightarrow> vnode_ptr \<Rightarrow> VTreeDataGraph \<Rightarrow> DataSocket list" where
  "find_input_data_sockets vtree vn data_graph =
     find_input_data_sockets_loop data_graph (VirtualNode.inputs (node_at vtree vn)) []"

record SocketDependencies =
  sockets :: "DataSocket list"
  vsockets :: "vsocket_ptr list"

text \<open>
  One pass of the loop body of \<^verbatim>\<open>find_particle_dependencies\<close> for the index \<open>i\<close>; the
  state is the combined dependencies and the flag array the caller passed in. The loop
  counters of this file are unsigned 32-bit integers that stay below the size they are
  compared with, so they never wrap: they are natural numbers here, and a counting loop
  is a recursion over the indices \<open>[0 ..< size]\<close>.
\<close>

definition find_particle_dependencies_step ::
  "VTreeDataGraph \<Rightarrow> DataSocket list \<Rightarrow> nat \<Rightarrow> SocketDependencies \<times> bool list \<Rightarrow>
   fatal + (SocketDependencies \<times> bool list)" where
  "find_particle_dependencies_step data_graph socks i st =
     (case at_index socks i of
        Inl e \<Rightarrow> Inl e
      | Inr socket \<Rightarrow>
          (let dependencies = find_placeholder_dependencies data_graph socket;
               has_dependency = (PlaceholderDependencies_size dependencies > 0)
           in case set_index (snd st) i has_dependency of
                Inl e \<Rightarrow> Inl e
              | Inr flags \<Rightarrow>
                  (let combined =
                         \<lparr>sockets = add_multiple (sockets (fst st)) (PlaceholderDependencies.sockets dependencies),
                          vsockets = add_multiple (vsockets (fst st)) (PlaceholderDependencies.vsockets dependencies)\<rparr>
                   in case BLI_assert (length (sockets combined) = length (vsockets combined)) of
                        Inl e \<Rightarrow> Inl e
                      | Inr _ \<Rightarrow> Inr (combined, flags))))"

fun find_particle_dependencies_loop ::
  "VTreeDataGraph \<Rightarrow> DataSocket list \<Rightarrow> nat list \<Rightarrow> SocketDependencies \<times> bool list \<Rightarrow>
   fatal + (SocketDependencies \<times> bool list)" where
  "find_particle_dependencies_loop data_graph socks [] st = Inr st"
| "find_particle_dependencies_loop data_graph socks (i # rest) st =
     (case find_particle_dependencies_step data_graph socks i st of
        Inl e \<Rightarrow> Inl e
      | Inr st' \<Rightarrow> find_particle_dependencies_loop data_graph socks rest st')"

definition find_particle_dependencies ::
  "VTreeDataGraph \<Rightarrow> DataSocket list \<Rightarrow> bool list \<Rightarrow> fatal + (SocketDependencies \<times> bool list)" where
  "find_particle_dependencies data_graph socks r_depends_on_particle_flags =
     find_particle_dependencies_loop data_graph socks [0 ..< length socks]
       (\<lparr>sockets = [], vsockets = []\<rparr>, r_depends_on_particle_flags)"

section \<open>The function builder\<close>

text \<open>
  Modelled from the spec: \<^verbatim>\<open>FunctionBuilder\<close>, \<^verbatim>\<open>FunctionGraph\<close>,
  \<^verbatim>\<open>fgraph_add_TupleCallBody\<close> and \<^verbatim>\<open>fgraph_add_LLVMBuildIRBody\<close> belong to the
  code-generation backend outside src/. Section 6 of the spec: a callable names its input
  sockets and its output sockets over the shared data graph, and has execution strategies
  attached, the interpreted one (the tuple-call body) and the compiled-native one (the
  LLVM body).
\<close>

record FunctionGraph =
  fgraph_graph :: SharedDataGraph
  fgraph_inputs :: "DataSocket list"
  fgraph_outputs :: "DataSocket list"

datatype Body = TupleCallBody FunctionGraph | LLVMBuildIRBody FunctionGraph

record SharedFunction =
  function_name :: string
  function_inputs :: "DataSocket list"
  function_outputs :: "DataSocket list"
  bodies :: "Body list"

record FunctionBuilder =
  builder_inputs :: "DataSocket list"
  builder_outputs :: "DataSocket list"

definition new_FunctionBuilder :: FunctionBuilder where
  "new_FunctionBuilder = \<lparr>builder_inputs = [], builder_outputs = []\<rparr>"

definition add_inputs :: "FunctionBuilder \<Rightarrow> SharedDataGraph \<Rightarrow> DataSocket list \<Rightarrow> FunctionBuilder" where
  "add_inputs b g socks = b\<lparr>builder_inputs := builder_inputs b @ socks\<rparr>"

definition add_outputs :: "FunctionBuilder \<Rightarrow> SharedDataGraph \<Rightarrow> DataSocket list \<Rightarrow> FunctionBuilder" where
  "add_outputs b g socks = b\<lparr>builder_outputs := builder_outputs b @ socks\<rparr>"

definition build :: "FunctionBuilder \<Rightarrow> string \<Rightarrow> SharedFunction" where
  "build b nm =
     \<lparr>function_name = nm, function_inputs = builder_inputs b,
      function_outputs = builder_outputs b, bodies = []\<rparr>"

definition fgraph_add_TupleCallBody :: "SharedFunction \<Rightarrow> FunctionGraph \<Rightarrow> SharedFunction" where
  "fgraph_add_TupleCallBody fn fgraph = fn\<lparr>bodies := bodies fn @ [TupleCallBody fgraph]\<rparr>"

definition fgraph_add_LLVMBuildIRBody :: "SharedFunction \<Rightarrow> FunctionGraph \<Rightarrow> SharedFunction" where
  "fgraph_add_LLVMBuildIRBody fn fgraph = fn\<lparr>bodies := bodies fn @ [LLVMBuildIRBody fgraph]\<rparr>"

text \<open>The loop of \<^verbatim>\<open>create_function__with_deps\<close> that fills \<^verbatim>\<open>r_input_providers\<close>.\<close>

fun create_input_providers_loop ::
  "VirtualNodeTree \<Rightarrow> SocketDependencies \<Rightarrow> nat list \<Rightarrow> ParticleFunctionInputProvider option list \<Rightarrow>
   fatal + ParticleFunctionInputProvider option list" where
  "create_input_providers_loop vtree dependencies [] providers = Inr providers"
| "create_input_providers_loop vtree dependencies (i # rest) providers =
     (case at_index (vsockets dependencies) i of
        Inl e \<Rightarrow> Inl e
      | Inr vsocket \<Rightarrow>
          (case create_input_provider vtree vsocket of
             Inl e \<Rightarrow> Inl e
           | Inr provider \<Rightarrow>
               (case set_index providers i provider of
                  Inl e \<Rightarrow> Inl e
                | Inr providers' \<Rightarrow> create_input_providers_loop vtree dependencies rest providers')))"

definition create_function__with_deps ::
  "VirtualNodeTree \<Rightarrow> SharedDataGraph \<Rightarrow> string \<Rightarrow> DataSocket list \<Rightarrow> SocketDependencies \<Rightarrow>
   ParticleFunctionInputProvider option list \<Rightarrow>
   fatal + (SharedFunction \<times> ParticleFunctionInputProvider option list)" where
  "create_function__with_deps vtree g nm sockets_to_compute dependencies r_input_providers =
     (let input_amount = length (sockets dependencies) in
      case BLI_assert (input_amount = length r_input_providers) of
        Inl e \<Rightarrow> Inl e
      | Inr _ \<Rightarrow>
          (let fn_builder = add_outputs (add_inputs new_FunctionBuilder g (sockets dependencies)) g sockets_to_compute
           in case create_input_providers_loop vtree dependencies [0 ..< input_amount] r_input_providers of
                Inl e \<Rightarrow> Inl e
              | Inr providers \<Rightarrow>
                  (let fn = build fn_builder nm;
                       fgraph = \<lparr>fgraph_graph = g, fgraph_inputs = sockets dependencies,
                                 fgraph_outputs = sockets_to_compute\<rparr>;
                       fn1 = fgraph_add_TupleCallBody fn fgraph;
                       fn2 = fgraph_add_LLVMBuildIRBody fn1 fgraph
                   in Inr (fn2, providers))))"

definition create_function__without_deps :: "SharedDataGraph \<Rightarrow> string \<Rightarrow> DataSocket list \<Rightarrow> SharedFunction" where
  "create_function__without_deps g nm sockets_to_compute =
     (let fn_builder = add_outputs new_FunctionBuilder g sockets_to_compute;
          fn = build fn_builder nm;
          fgraph = \<lparr>fgraph_graph = g, fgraph_inputs = [], fgraph_outputs = sockets_to_compute\<rparr>
      in fgraph_add_TupleCallBody fn fgraph)"

section \<open>The particle function\<close>

text \<open>
  Modelled from the spec: \<^verbatim>\<open>ParticleFunction\<close> and \<^verbatim>\<open>ValueOrError\<close> are declared outside
  src/. Section 3 of the spec: a Particle Function owns the two callables, the ordered
  providers and the flag of every requested output; section 7: the entry point returns a
  success/structured-error result type.
\<close>

record ParticleFunction =
  fn_without_deps :: SharedFunction
  fn_with_deps :: SharedFunction
  input_providers :: "ParticleFunctionInputProvider option list"
  depends_on_particle_flags :: "bool list"

datatype 'a ValueOrError = Value 'a | Error string

text \<open>The partition loop of \<^verbatim>\<open>create_particle_function_from_sockets\<close>.\<close>

fun partition_sockets_loop ::
  "DataSocket list \<Rightarrow> bool list \<Rightarrow> nat list \<Rightarrow> DataSocket list \<times> DataSocket list \<Rightarrow>
   fatal + (DataSocket list \<times> DataSocket list)" where
  "partition_sockets_loop sockets_to_compute flags [] acc = Inr acc"
| "partition_sockets_loop sockets_to_compute flags (i # rest) acc =
     (case at_index flags i of
        Inl e \<Rightarrow> Inl e
      | Inr flag \<Rightarrow>
          (case at_index sockets_to_compute i of
             Inl e \<Rightarrow> Inl e
           | Inr socket \<Rightarrow>
               (if flag then
                  partition_sockets_loop sockets_to_compute flags rest (fst acc @ [socket], snd acc)
                else
                  partition_sockets_loop sockets_to_compute flags rest (fst acc, snd acc @ [socket]))))"

definition partition_sockets ::
  "DataSocket list \<Rightarrow> bool list \<Rightarrow> fatal + (DataSocket list \<times> DataSocket list)" where
  "partition_sockets sockets_to_compute flags =
     partition_sockets_loop sockets_to_compute flags [0 ..< length sockets_to_compute] ([], [])"

definition create_particle_function_from_sockets ::
  "VirtualNodeTree \<Rightarrow> SharedDataGraph \<Rightarrow> string \<Rightarrow> DataSocket list \<Rightarrow> bool list \<Rightarrow> SocketDependencies \<Rightarrow>
   fatal + ParticleFunction option ValueOrError" where
  "create_particle_function_from_sockets vtree g nm sockets_to_compute flags dependencies =
     (case partition_sockets sockets_to_compute flags of
        Inl e \<Rightarrow> Inl e
      | Inr (sockets_with_deps, sockets_without_deps) \<Rightarrow>
          (let providers0 = replicate (length (sockets dependencies)) None;
               without_deps = create_function__without_deps g nm sockets_without_deps
           in case create_function__with_deps vtree g nm sockets_with_deps dependencies providers0 of
                Inl e \<Rightarrow> Inl e
              | Inr (with_deps, providers) \<Rightarrow>
                  Inr (Value (Some \<lparr>fn_without_deps = without_deps, fn_with_deps = with_deps,
                                     input_providers = providers,
                                     depends_on_particle_flags = flags\<rparr>))))"

text \<open>
  \<^verbatim>\<open>Vector<bool> depends_on_particle_flags(size)\<close> starts with \<open>size\<close> flags; the analyzer
  overwrites every one of them.
\<close>

definition create_particle_function ::
  "VirtualNodeTree \<Rightarrow> vnode_ptr \<Rightarrow> VTreeDataGraph \<Rightarrow> fatal + ParticleFunction option ValueOrError" where
  "create_particle_function vtree vn data_graph =
     (let sockets_to_compute = find_input_data_sockets vtree vn data_graph;
          flags0 = replicate (length sockets_to_compute) False
      in case find_particle_dependencies data_graph sockets_to_compute flags0 of
           Inl e \<Rightarrow> Inl e
         | Inr (dependencies, flags) \<Rightarrow>
             (let nm = VirtualNode.name (node_at vtree vn) @ '' Inputs''
              in create_particle_function_from_sockets vtree (graph data_graph) nm
                   sockets_to_compute flags dependencies))"

text \<open>
  Modelled from the spec: the recombination of the two result lists lives in the
  evaluation code outside src/. Sections 4.7 and 8 of the spec: an order-preserving merge
  guided by the flag array, which takes the next element of the with-dependency list
  where the flag is set and of the without-dependency list where it is not.
\<close>

fun merge_by_flags :: "bool list \<Rightarrow> 'a list \<Rightarrow> 'a list \<Rightarrow> 'a list option" where
  "merge_by_flags [] [] [] = Some []"
| "merge_by_flags (True # flags) (x # with_deps) without_deps =
     map_option ((#) x) (merge_by_flags flags with_deps without_deps)"
| "merge_by_flags (False # flags) with_deps (y # without_deps) =
     map_option ((#) y) (merge_by_flags flags with_deps without_deps)"
| "merge_by_flags _ _ _ = None"

section \<open>The invariant of the dependency set\<close>

text \<open>
  The two collections of the combined dependencies are index-aligned when the virtual
  sockets are the origins of the data sockets, position by position, and neither
  collection holds a value twice.
\<close>

definition aligned :: "VTreeDataGraph \<Rightarrow> SocketDependencies \<Rightarrow> bool" where
  "aligned data_graph c \<longleftrightarrow>
     vsockets c = map (origin_vsocket data_graph) (sockets c) \<and>
     distinct (sockets c) \<and> distinct (vsockets c)"

section \<open>Concrete inputs\<close>

text \<open>
  A batch of four particle slots of which the slots 1 and 3 are active, with birth times
  0, 2, 1, 4; the fresh array of the allocator holds 99 everywhere.
\<close>

definition example_attributes :: "int AttributeArrays" where
  "example_attributes =
     \<lparr>attribute_index = (\<lambda>n. if n = ''Birth Time'' then 0 else 1),
      attribute_stride = (\<lambda>i. 4),
      get_ptr = (\<lambda>i. 1000 + 100 * i),
      get_float = (\<lambda>n. if n = ''Birth Time'' then [0, 2, 1, 4] else [])\<rparr>"

definition example_interface ::
  "int ParticleTimes \<Rightarrow> (int \<times> int \<times> int) ActionContext option \<Rightarrow>
   (int, int \<times> int \<times> int) InputProviderInterface" where
  "example_interface pt ctx =
     \<lparr>particles = \<lparr>attributes = example_attributes, pindices = [1, 3]\<rparr>,
      particle_times = pt,
      action_context = ctx,
      array_allocator = \<lparr>array_size = 4, allocated = 0, fresh_memory = (\<lambda>i. 99)\<rparr>\<rparr>"

definition example_current_times :: "int ParticleTimes" where
  "example_current_times =
     \<lparr>type = Current, current_times = [5, 5, 5, 5], remaining_durations = [], end_time = 0\<rparr>"

definition example_durations :: "int ParticleTimes" where
  "example_durations =
     \<lparr>type = DurationAndEnd, current_times = [], remaining_durations = [1, 1, 2, 2], end_time = 6\<rparr>"

text \<open>
  An authoring tree: the sockets 0 and 1 are outputs of a particle-info node, the socket 2
  of a collision-info node, the socket 3 of a node of another kind; the sockets from 4 on
  are the inputs of the node 3.
\<close>

definition example_vtree :: VirtualNodeTree where
  "example_vtree =
     \<lparr>socket_at = (\<lambda>p.
        if p = 0 then \<lparr>VirtualSocket.name = ''Age'', vnode = 0\<rparr>
        else if p = 1 then \<lparr>VirtualSocket.name = ''Velocity'', vnode = 0\<rparr>
        else if p = 2 then \<lparr>VirtualSocket.name = ''Normal'', vnode = 1\<rparr>
        else if p = 3 then \<lparr>VirtualSocket.name = ''Age'', vnode = 2\<rparr>
        else \<lparr>VirtualSocket.name = ''Size'', vnode = 3\<rparr>),
      node_at = (\<lambda>p.
        if p = 0 then \<lparr>idname = ''bp_ParticleInfoNode'', name = ''Particle Info'', inputs = []\<rparr>
        else if p = 1 then \<lparr>idname = ''bp_CollisionInfoNode'', name = ''Collision Info'', inputs = []\<rparr>
        else if p = 2 then \<lparr>idname = ''fn_FloatMathNode'', name = ''Math'', inputs = []\<rparr>
        else \<lparr>idname = ''bp_ChangeColorNode'', name = ''Change Color'', inputs = [4, 5, 6, 7]\<rparr>)\<rparr>"

text \<open>
  A data graph for the inputs of the node 3: the input 4 depends on the placeholders of
  the sockets 0 and 1, the input 5 on none, the input 6 has no data socket, the input 7
  depends on the placeholders of the sockets 1 and 2. A placeholder with the number n
  originates from the virtual socket n.
\<close>

definition example_data_graph :: VTreeDataGraph where
  "example_data_graph =
     \<lparr>lookup_socket_ptr = (\<lambda>v. if v = 6 then None else Some (DataSocket False v)),
      placeholder_sockets = (\<lambda>s.
        if s = DataSocket False 4 then [DataSocket True 0, DataSocket True 1]
        else if s = DataSocket False 7 then [DataSocket True 1, DataSocket True 2]
        else []),
      origin_vsocket = (\<lambda>s. case s of DataSocket out n \<Rightarrow> n),
      graph = 0\<rparr>"

definition example_sockets :: "DataSocket list" where
  "example_sockets = [DataSocket False 4, DataSocket False 5, DataSocket False 7]"

definition example_dependencies :: SocketDependencies where
  "example_dependencies =
     \<lparr>sockets = [DataSocket True 0, DataSocket True 1, DataSocket True 2], vsockets = [0, 1, 2]\<rparr>"

definition example_fgraph :: FunctionGraph where
  "example_fgraph =
     \<lparr>fgraph_graph = 0, fgraph_inputs = [DataSocket True 0, DataSocket True 1, DataSocket True 2],
      fgraph_outputs = [DataSocket False 4, DataSocket False 7]\<rparr>"

definition example_particle_function :: ParticleFunction where
  "example_particle_function =
     \<lparr>fn_without_deps =
        \<lparr>function_name = ''Change Color Inputs'', function_inputs = [],
         function_outputs = [DataSocket False 5],
         bodies = [TupleCallBody \<lparr>fgraph_graph = 0, fgraph_inputs = [],
                                  fgraph_outputs = [DataSocket False 5]\<rparr>]\<rparr>,
      fn_with_deps =
        \<lparr>function_name = ''Change Color Inputs'',
         function_inputs = [DataSocket True 0, DataSocket True 1, DataSocket True 2],
         function_outputs = [DataSocket False 4, DataSocket False 7],
         bodies = [TupleCallBody example_fgraph, LLVMBuildIRBody example_fgraph]\<rparr>,
      input_providers =
        [Some AgeInputProvider, Some (AttributeInputProvider ''Velocity''),
         Some CollisionNormalInputProvider],
      depends_on_particle_flags = [True, False, True]\<rparr>"

section \<open>The derived-age provider\<close>

lemma ages_from_current_times_Inr:
  "ages_from_current_times cts bts ps ages = Inr r \<Longrightarrow>
   length r = length ages \<and>
   (\<forall>p\<in>set ps. p < length ages \<and> p < length cts \<and> p < length bts \<and> r ! p = cts ! p - bts ! p) \<and>
   (\<forall>q. q \<notin> set ps \<longrightarrow> r ! q = ages ! q)"
proof (induction ps arbitrary: ages)
  case Nil
  then show ?case by simp
next
  case (Cons p ps)
  from Cons.prems have b: "p < length cts" "p < length bts" "p < length ages"
    and run: "ages_from_current_times cts bts ps (ages[p := cts ! p - bts ! p]) = Inr r"
    by (auto simp: at_index_def store_raw_def split: if_splits)
  note ih = Cons.IH [OF run]
  from ih have len: "length r = length ages" by simp
  have here: "r ! p = cts ! p - bts ! p"
  proof (cases "p \<in> set ps")
    case True
    with ih show ?thesis by blast
  next
    case False
    with ih have "r ! p = (ages[p := cts ! p - bts ! p]) ! p" by blast
    with b show ?thesis by simp
  qed
  have rest: "\<forall>q\<in>set ps. q < length ages \<and> q < length cts \<and> q < length bts \<and> r ! q = cts ! q - bts ! q"
    using ih by simp
  have other: "\<forall>q. q \<notin> set (p # ps) \<longrightarrow> r ! q = ages ! q"
    using ih by auto
  show ?case using len here rest other b by simp
qed

lemma ages_from_current_times_total:
  "\<forall>p\<in>set ps. p < length ages \<and> p < length cts \<and> p < length bts \<Longrightarrow>
   \<exists>r. ages_from_current_times cts bts ps ages = Inr r"
  by (induction ps arbitrary: ages) (auto simp: at_index_def store_raw_def)

lemma ages_from_durations_Inr:
  "ages_from_durations et rds bts ps ages = Inr r \<Longrightarrow>
   length r = length ages \<and>
   (\<forall>p\<in>set ps. p < length ages \<and> p < length rds \<and> p < length bts \<and> r ! p = et - rds ! p - bts ! p) \<and>
   (\<forall>q. q \<notin> set ps \<longrightarrow> r ! q = ages ! q)"
proof (induction ps arbitrary: ages)
  case Nil
  then show ?case by simp
next
  case (Cons p ps)
  from Cons.prems have b: "p < length rds" "p < length bts" "p < length ages"
    and run: "ages_from_durations et rds bts ps (ages[p := et - rds ! p - bts ! p]) = Inr r"
    by (auto simp: at_index_def store_raw_def split: if_splits)
  note ih = Cons.IH [OF run]
  from ih have len: "length r = length ages" by simp
  have here: "r ! p = et - rds ! p - bts ! p"
  proof (cases "p \<in> set ps")
    case True
    with ih show ?thesis by blast
  next
    case False
    with ih have "r ! p = (ages[p := et - rds ! p - bts ! p]) ! p" by blast
    with b show ?thesis by simp
  qed
  have rest: "\<forall>q\<in>set ps. q < length ages \<and> q < length rds \<and> q < length bts \<and> r ! q = et - rds ! q - bts ! q"
    using ih by simp
  have other: "\<forall>q. q \<notin> set (p # ps) \<longrightarrow> r ! q = ages ! q"
    using ih by auto
  show ?case using len here rest other b by simp
qed

lemma ages_from_durations_total:
  "\<forall>p\<in>set ps. p < length ages \<and> p < length rds \<and> p < length bts \<Longrightarrow>
   \<exists>r. ages_from_durations et rds bts ps ages = Inr r"
  by (induction ps arbitrary: ages) (auto simp: at_index_def store_raw_def)

text \<open>
  With both time arrays and the birth times covering the active indices, and the active
  indices inside the allocated array, the provider returns.
\<close>

lemma AgeInputProvider_get_returns:
  assumes "\<forall>p\<in>set (pindices (particles interface)).
             p < array_size (array_allocator interface) \<and>
             p < length (get_float (attributes (particles interface)) ''Birth Time'') \<and>
             p < length (current_times (particle_times interface)) \<and>
             p < length (remaining_durations (particle_times interface))"
    and "type (particle_times interface) \<noteq> Unrecognized"
  shows "\<exists>result interface'. AgeInputProvider_get interface = Inr (result, interface')"
proof (cases "type (particle_times interface)")
  case Current
  from assms(1) have "\<exists>r. ages_from_current_times (current_times (particle_times interface))
      (get_float (attributes (particles interface)) ''Birth Time'') (pindices (particles interface))
      (map (fresh_memory (array_allocator interface)) [0 ..< array_size (array_allocator interface)]) = Inr r"
    by (intro ages_from_current_times_total) simp
  with Current show ?thesis
    by (auto simp: AgeInputProvider_get_def allocate_def Let_def)
next
  case DurationAndEnd
  from assms(1) have "\<exists>r. ages_from_durations (end_time (particle_times interface))
      (remaining_durations (particle_times interface))
      (get_float (attributes (particles interface)) ''Birth Time'') (pindices (particles interface))
      (map (fresh_memory (array_allocator interface)) [0 ..< array_size (array_allocator interface)]) = Inr r"
    by (intro ages_from_durations_total) simp
  with DurationAndEnd show ?thesis
    by (auto simp: AgeInputProvider_get_def allocate_def Let_def)
next
  case Unrecognized
  with assms(2) show ?thesis by simp
qed

text \<open>
  Claim C2. Whenever the derived-age provider returns, its result is an owned array of
  the allocator's array size in which every active particle index p holds
  current_times[p] - birth_times[p] under the Current variant and
  end_time - remaining_durations[p] - birth_times[p] under the DurationAndEnd variant,
  and every entry outside the active index set still holds what the fresh array held.
\<close>

theorem AgeInputProvider_get_ages:
  assumes run: "AgeInputProvider_get interface = Inr (result, interface')"
  shows "\<exists>ages. result = InputArray_floats ages True \<and>
           length ages = array_size (array_allocator interface) \<and>
           (\<forall>p\<in>set (pindices (particles interface)).
              p < length ages \<and>
              p < length (get_float (attributes (particles interface)) ''Birth Time'') \<and>
              (type (particle_times interface) = Current \<longrightarrow>
                 p < length (current_times (particle_times interface)) \<and>
                 ages ! p = current_times (particle_times interface) ! p
                            - get_float (attributes (particles interface)) ''Birth Time'' ! p) \<and>
              (type (particle_times interface) = DurationAndEnd \<longrightarrow>
                 p < length (remaining_durations (particle_times interface)) \<and>
                 ages ! p = end_time (particle_times interface)
                            - remaining_durations (particle_times interface) ! p
                            - get_float (attributes (particles interface)) ''Birth Time'' ! p)) \<and>
           (\<forall>q < array_size (array_allocator interface).
              q \<notin> set (pindices (particles interface)) \<longrightarrow>
              ages ! q = fresh_memory (array_allocator interface) q)"
proof -
  let ?bts = "get_float (attributes (particles interface)) ''Birth Time''"
  let ?ps = "pindices (particles interface)"
  let ?n = "array_size (array_allocator interface)"
  let ?fresh = "map (fresh_memory (array_allocator interface)) [0 ..< ?n]"
  let ?times = "particle_times interface"
  have fresh: "length ?fresh = ?n" "\<forall>q < ?n. ?fresh ! q = fresh_memory (array_allocator interface) q"
    by simp_all
  consider (cur) "type ?times = Current" | (dur) "type ?times = DurationAndEnd" | (bad) "type ?times = Unrecognized"
    by (cases "type ?times") auto
  then show ?thesis
  proof cases
    case cur
    with run obtain r where loop: "ages_from_current_times (current_times ?times) ?bts ?ps ?fresh = Inr r"
      and res: "result = InputArray_floats (take ?n r) True"
      by (auto simp: AgeInputProvider_get_def allocate_def Let_def split: sum.splits)
    from ages_from_current_times_Inr [OF loop] fresh cur res show ?thesis by auto
  next
    case dur
    with run obtain r where loop: "ages_from_durations (end_time ?times) (remaining_durations ?times) ?bts ?ps ?fresh = Inr r"
      and res: "result = InputArray_floats (take ?n r) True"
      by (auto simp: AgeInputProvider_get_def allocate_def Let_def split: sum.splits)
    from ages_from_durations_Inr [OF loop] fresh dur res show ?thesis by auto
  next
    case bad
    with run show ?thesis
      by (simp add: AgeInputProvider_get_def allocate_def Let_def BLI_assert_def)
  qed
qed

theorem AgeInputProvider_get_ages_witness:
  "AgeInputProvider_get (example_interface example_current_times None) =
     Inr (InputArray_floats [99, 5 - 2, 99, 5 - 4] True,
          (example_interface example_current_times None)
            \<lparr>array_allocator := \<lparr>array_size = 4, allocated = 1, fresh_memory = (\<lambda>i. 99)\<rparr>\<rparr>) \<and>
   AgeInputProvider_get (example_interface example_durations None) =
     Inr (InputArray_floats [99, 6 - 1 - 2, 99, 6 - 2 - 4] True,
          (example_interface example_durations None)
            \<lparr>array_allocator := \<lparr>array_size = 4, allocated = 1, fresh_memory = (\<lambda>i. 99)\<rparr>\<rparr>)"
proof -
  let ?c = "example_interface example_current_times None"
  let ?d = "example_interface example_durations None"
  let ?a = "\<lparr>array_size = 4, allocated = 1, fresh_memory = (\<lambda>i. 99::int)\<rparr>"
  have c: "AgeInputProvider_get ?c = Inr (InputArray_floats [99, 3, 99, 1] True, ?c\<lparr>array_allocator := ?a\<rparr>)"
    by (simp add: AgeInputProvider_get_def example_interface_def example_current_times_def
        example_attributes_def allocate_def Let_def at_index_def store_raw_def upt_conv_Cons)
  have d: "AgeInputProvider_get ?d = Inr (InputArray_floats [99, 3, 99, 0] True, ?d\<lparr>array_allocator := ?a\<rparr>)"
    by (simp add: AgeInputProvider_get_def example_interface_def example_durations_def
        example_attributes_def allocate_def Let_def at_index_def store_raw_def upt_conv_Cons)
  from AgeInputProvider_get_ages [OF c] AgeInputProvider_get_ages [OF d] c d show ?thesis
    by simp
qed


section \<open>Ownership of the returned arrays\<close>

text \<open>
  Claim C8. The attribute-backed provider always returns a pointer/stride view that is
  not owned and leaves the interface, the allocator included, as it was. Whenever the
  derived-age provider returns, its view is owned and the allocator has handed out
  exactly one more array; nothing else of the interface has changed.
\<close>

theorem provider_ownership:
  "(\<exists>buffer stride. AttributeInputProvider_get m_name interface =
        Inr (InputArray_ptr buffer stride False, interface)) \<and>
   (\<forall>result interface'. AgeInputProvider_get interface = Inr (result, interface') \<longrightarrow>
      is_owned result \<and>
      allocated (array_allocator interface') = Suc (allocated (array_allocator interface)) \<and>
      interface' = interface\<lparr>array_allocator := (array_allocator interface)\<lparr>allocated := Suc (allocated (array_allocator interface))\<rparr>\<rparr>)"
  by (auto simp: AttributeInputProvider_get_def AgeInputProvider_get_def allocate_def Let_def
           split: sum.splits if_splits)

theorem provider_ownership_witness:
  "AttributeInputProvider_get ''Velocity'' (example_interface example_current_times None) =
     Inr (InputArray_ptr 1100 4 False, example_interface example_current_times None) \<and>
   AgeInputProvider_get (example_interface example_current_times None) =
     Inr (InputArray_floats [99, 3, 99, 1] True,
          (example_interface example_current_times None)
            \<lparr>array_allocator := \<lparr>array_size = 4, allocated = 1, fresh_memory = (\<lambda>i. 99)\<rparr>\<rparr>) \<and>
   is_owned (InputArray_floats [99, 3, 99, 1::int] True :: (int, int \<times> int \<times> int) ParticleFunctionInputArray) \<and>
   allocated (array_allocator (example_interface example_current_times None)) = 0"
proof -
  let ?i = "example_interface example_current_times None"
  let ?a = "\<lparr>array_size = 4, allocated = 1, fresh_memory = (\<lambda>i. 99::int)\<rparr>"
  have run: "AgeInputProvider_get ?i = Inr (InputArray_floats [99, 3, 99, 1] True, ?i\<lparr>array_allocator := ?a\<rparr>)"
    by (simp add: AgeInputProvider_get_def example_interface_def example_current_times_def
        example_attributes_def allocate_def Let_def at_index_def store_raw_def upt_conv_Cons)
  have att: "AttributeInputProvider_get ''Velocity'' ?i = Inr (InputArray_ptr 1100 4 False, ?i)"
    by (simp add: AttributeInputProvider_get_def example_interface_def example_attributes_def Let_def)
  note own = provider_ownership [of "''Velocity''" ?i, THEN conjunct2, rule_format, OF run]
  have zero: "allocated (array_allocator ?i) = 0"
    by (simp add: example_interface_def)
  from own run att zero show ?thesis
    by blast
qed


section \<open>The collision-normal provider\<close>

text \<open>
  Claim C6. With no action context, or with a context that is not a collision event, the
  collision-normal provider ends in the failed assertion: it returns no array at all.
\<close>

theorem CollisionNormalInputProvider_get_fatal:
  "action_context interface = None \<or> (\<exists>k. action_context interface = Some (OtherEvent k)) \<Longrightarrow>
   CollisionNormalInputProvider_get interface = Inl AssertionFailure"
  by (auto simp: CollisionNormalInputProvider_get_def BLI_assert_def Let_def)

theorem CollisionNormalInputProvider_get_fatal_witness:
  "CollisionNormalInputProvider_get (example_interface example_current_times None) = Inl AssertionFailure \<and>
   CollisionNormalInputProvider_get (example_interface example_current_times (Some (OtherEvent 3))) = Inl AssertionFailure"
proof -
  have a: "action_context (example_interface example_current_times None) = None \<or>
           (\<exists>k. action_context (example_interface example_current_times None) = Some (OtherEvent k))"
    by (simp add: example_interface_def)
  have b: "action_context (example_interface example_current_times (Some (OtherEvent 3))) = None \<or>
           (\<exists>k. action_context (example_interface example_current_times (Some (OtherEvent 3))) = Some (OtherEvent k))"
    by (simp add: example_interface_def)
  show ?thesis
    using CollisionNormalInputProvider_get_fatal [OF a] CollisionNormalInputProvider_get_fatal [OF b]
    by simp
qed

text \<open>The only way the provider returns: the normals of a collision event, not owned.\<close>

lemma CollisionNormalInputProvider_get_returns:
  "CollisionNormalInputProvider_get interface = Inr (result, interface') \<Longrightarrow>
   \<exists>info. action_context interface = Some (CollisionEvent info) \<and>
          result = InputArray_normals (normals info) False \<and> interface' = interface"
  by (cases "action_context interface" rule: dynamic_cast_CollisionEventInfo.cases)
     (auto simp: CollisionNormalInputProvider_get_def BLI_assert_def Let_def)


section \<open>The provider factory\<close>

text \<open>
  Claim C1. The factory dispatches on the idname of the socket's node and on the socket's
  name: a particle-info node gives the age provider for the name Age and an attribute
  provider holding the name otherwise, a collision-info node gives the collision-normal
  provider, and any other node ends in the failed assertion. A null provider is never
  returned.
\<close>

theorem create_input_provider_dispatch:
  "(idname (node_at vtree (vnode (socket_at vtree vsocket))) = ''bp_ParticleInfoNode'' \<and>
    VirtualSocket.name (socket_at vtree vsocket) = ''Age'' \<longrightarrow>
      create_input_provider vtree vsocket = Inr (Some AgeInputProvider)) \<and>
   (idname (node_at vtree (vnode (socket_at vtree vsocket))) = ''bp_ParticleInfoNode'' \<and>
    VirtualSocket.name (socket_at vtree vsocket) \<noteq> ''Age'' \<longrightarrow>
      create_input_provider vtree vsocket =
        Inr (Some (AttributeInputProvider (VirtualSocket.name (socket_at vtree vsocket))))) \<and>
   (idname (node_at vtree (vnode (socket_at vtree vsocket))) = ''bp_CollisionInfoNode'' \<longrightarrow>
      create_input_provider vtree vsocket = Inr (Some CollisionNormalInputProvider)) \<and>
   (idname (node_at vtree (vnode (socket_at vtree vsocket))) \<noteq> ''bp_ParticleInfoNode'' \<and>
    idname (node_at vtree (vnode (socket_at vtree vsocket))) \<noteq> ''bp_CollisionInfoNode'' \<longrightarrow>
      create_input_provider vtree vsocket = Inl AssertionFailure) \<and>
   create_input_provider vtree vsocket \<noteq> Inr None"
  by (simp add: create_input_provider_def BLI_assert_def Let_def)

theorem create_input_provider_dispatch_witness:
  "create_input_provider example_vtree 0 = Inr (Some AgeInputProvider) \<and>
   create_input_provider example_vtree 1 = Inr (Some (AttributeInputProvider ''Velocity'')) \<and>
   create_input_provider example_vtree 2 = Inr (Some CollisionNormalInputProvider) \<and>
   create_input_provider example_vtree 3 = Inl AssertionFailure"
  using create_input_provider_dispatch [of example_vtree 0]
    create_input_provider_dispatch [of example_vtree 1]
    create_input_provider_dispatch [of example_vtree 2]
    create_input_provider_dispatch [of example_vtree 3]
  by (simp add: example_vtree_def)

section \<open>The example, evaluated\<close>

lemmas example_defs = example_sockets_def example_dependencies_def example_data_graph_def
  example_vtree_def example_fgraph_def example_particle_function_def

lemma example_analysis:
  "find_particle_dependencies example_data_graph example_sockets [False, False, False] =
     Inr (example_dependencies, [True, False, True])"
  by (simp add: example_defs find_particle_dependencies_def find_particle_dependencies_step_def
      at_index_def set_index_def BLI_assert_def find_placeholder_dependencies_def
      PlaceholderDependencies_size_def SetVector_add_def Let_def upt_conv_Cons)

lemma example_input_sockets:
  "find_input_data_sockets example_vtree 3 example_data_graph = example_sockets"
  by (simp add: example_defs find_input_data_sockets_def)


section \<open>The dependency analyzer\<close>

text \<open>What \<open>add_multiple\<close> keeps: the values, each once, the order of the first discovery.\<close>

lemma set_add_multiple: "set (add_multiple xs ds) = set xs \<union> set ds"
  by (induction ds arbitrary: xs) (auto simp: SetVector_add_def)

lemma distinct_add_multiple: "distinct xs \<Longrightarrow> distinct (add_multiple xs ds)"
  by (induction ds arbitrary: xs) (auto simp: SetVector_add_def)

lemma add_multiple_map:
  "inj_on f (set cs \<union> set ds) \<Longrightarrow> add_multiple (map f cs) (map f ds) = map f (add_multiple cs ds)"
proof (induction ds arbitrary: cs)
  case Nil
  then show ?case by simp
next
  case (Cons d ds)
  have mem: "f d \<in> f ` set cs \<longleftrightarrow> d \<in> set cs"
    using Cons.prems by (auto simp: inj_on_def)
  have one: "SetVector_add (map f cs) (f d) = map f (SetVector_add cs d)"
    using mem by (simp add: SetVector_add_def)
  have "set (SetVector_add cs d) \<union> set ds \<subseteq> set cs \<union> set (d # ds)"
    by (auto simp: SetVector_add_def)
  with Cons.prems have "inj_on f (set (SetVector_add cs d) \<union> set ds)"
    by (rule inj_on_subset)
  from Cons.IH [OF this] one show ?case by simp
qed

text \<open>
  Two deduplicated collections that grow to the same length under a map: the map was
  one-to-one on everything added.
\<close>

lemma equal_length_inj_on:
  assumes d: "distinct cs" "distinct (map f cs)"
    and len: "length (add_multiple cs ds) = length (add_multiple (map f cs) (map f ds))"
  shows "inj_on f (set cs \<union> set ds)"
proof -
  have "card (set cs \<union> set ds) = length (add_multiple cs ds)"
    using distinct_add_multiple [OF d(1), of ds] by (simp add: distinct_card [symmetric] set_add_multiple)
  moreover have "card (f ` (set cs \<union> set ds)) = length (add_multiple (map f cs) (map f ds))"
    using distinct_add_multiple [OF d(2), of "map f ds"]
    by (simp add: distinct_card [symmetric] set_add_multiple image_Un)
  ultimately have "card (f ` (set cs \<union> set ds)) = card (set cs \<union> set ds)"
    using len by simp
  then show ?thesis by (intro eq_card_imp_inj_on) simp_all
qed

lemma find_particle_dependencies_step_Inr:
  assumes "find_particle_dependencies_step g socks i (c, fl) = Inr (c', fl')"
  shows "i < length socks" and "i < length fl"
    and "fl' = fl[i := (placeholder_sockets g (socks ! i) \<noteq> [])]"
    and "sockets c' = add_multiple (sockets c) (placeholder_sockets g (socks ! i))"
    and "vsockets c' = add_multiple (vsockets c) (map (origin_vsocket g) (placeholder_sockets g (socks ! i)))"
    and "length (sockets c') = length (vsockets c')"
  using assms
  by (auto simp: find_particle_dependencies_step_def at_index_def set_index_def BLI_assert_def
      find_placeholder_dependencies_def PlaceholderDependencies_size_def Let_def
      split: if_splits)

lemma find_particle_dependencies_step_aligned:
  assumes step: "find_particle_dependencies_step g socks i (c, fl) = Inr (c', fl')"
    and inv: "aligned g c"
  shows "aligned g c'"
proof -
  let ?f = "origin_vsocket g"
  let ?ds = "placeholder_sockets g (socks ! i)"
  note s = find_particle_dependencies_step_Inr [OF step]
  from inv have v: "vsockets c = map ?f (sockets c)" and d1: "distinct (sockets c)"
    and d2': "distinct (vsockets c)"
    unfolding aligned_def by blast+
  from d2' v have d2: "distinct (map ?f (sockets c))" by metis
  note d = d1 d2
  from s(4-6) v have len: "length (add_multiple (sockets c) ?ds) = length (add_multiple (map ?f (sockets c)) (map ?f ?ds))"
    by simp
  have inj: "inj_on ?f (set (sockets c) \<union> set ?ds)"
    by (rule equal_length_inj_on [OF d len])
  have "vsockets c' = map ?f (sockets c')"
    using s(4,5) v add_multiple_map [OF inj] by simp
  moreover have "distinct (sockets c')" "distinct (vsockets c')"
    using s(4,5) d v by (simp_all add: distinct_add_multiple)
  ultimately show ?thesis by (simp add: aligned_def)
qed

lemma find_particle_dependencies_loop_aligned:
  "find_particle_dependencies_loop g socks is st = Inr st' \<Longrightarrow> aligned g (fst st) \<Longrightarrow> aligned g (fst st')"
proof (induction "is" arbitrary: st)
  case Nil
  then show ?case by simp
next
  case (Cons i "is")
  from Cons.prems(1) obtain mid where step: "find_particle_dependencies_step g socks i st = Inr mid"
    and rest: "find_particle_dependencies_loop g socks is mid = Inr st'"
    by (auto split: sum.splits)
  from step Cons.prems(2) have "aligned g (fst mid)"
    using find_particle_dependencies_step_aligned [of g socks i "fst st" "snd st" "fst mid" "snd mid"] by simp
  with Cons.IH [OF rest] show ?case .
qed

lemma find_particle_dependencies_loop_append:
  "find_particle_dependencies_loop g socks (is @ js) st =
     (case find_particle_dependencies_loop g socks is st of
        Inl e \<Rightarrow> Inl e
      | Inr mid \<Rightarrow> find_particle_dependencies_loop g socks js mid)"
  by (induction "is" arbitrary: st) (auto split: sum.splits)

text \<open>Every pass of a run that completes has completed itself.\<close>

lemma find_particle_dependencies_prefix:
  assumes "find_particle_dependencies data_graph socks flags0 = Inr r" and "k \<le> length socks"
  shows "\<exists>st. find_particle_dependencies_loop data_graph socks [0 ..< k]
               (\<lparr>sockets = [], vsockets = []\<rparr>, flags0) = Inr st"
proof -
  from assms(2) have "[0 ..< length socks] = [0 ..< k] @ [k ..< length socks]"
    by (metis le_add_diff_inverse upt_add_eq_append zero_le)
  with assms(1) show ?thesis
    by (auto simp: find_particle_dependencies_def find_particle_dependencies_loop_append
        split: sum.splits)
qed

lemma find_particle_dependencies_loop_flags:
  "find_particle_dependencies_loop g socks is st = Inr st' \<Longrightarrow>
   length (snd st') = length (snd st) \<and>
   (\<forall>i\<in>set is. i < length socks \<and> i < length (snd st) \<and>
       snd st' ! i = (placeholder_sockets g (socks ! i) \<noteq> [])) \<and>
   (\<forall>j. j \<notin> set is \<longrightarrow> snd st' ! j = snd st ! j)"
proof (induction "is" arbitrary: st)
  case Nil
  then show ?case by simp
next
  case (Cons i "is")
  from Cons.prems obtain mid where step: "find_particle_dependencies_step g socks i st = Inr mid"
    and rest: "find_particle_dependencies_loop g socks is mid = Inr st'"
    by (auto split: sum.splits)
  from step have step': "find_particle_dependencies_step g socks i (fst st, snd st) = Inr (fst mid, snd mid)"
    by simp
  note s = find_particle_dependencies_step_Inr [OF step']
  from s have b: "i < length socks" "i < length (snd st)"
    and m: "snd mid = (snd st)[i := (placeholder_sockets g (socks ! i) \<noteq> [])]"
    by simp_all
  note ih = Cons.IH [OF rest]
  from ih m have len: "length (snd st') = length (snd st)" by simp
  have here: "snd st' ! i = (placeholder_sockets g (socks ! i) \<noteq> [])"
  proof (cases "i \<in> set is")
    case True
    with ih show ?thesis by blast
  next
    case False
    with ih have "snd st' ! i = snd mid ! i" by blast
    with m b show ?thesis by simp
  qed
  have rest': "\<forall>k\<in>set is. k < length socks \<and> k < length (snd st) \<and>
       snd st' ! k = (placeholder_sockets g (socks ! k) \<noteq> [])"
    using ih m by simp
  have other: "\<forall>j. j \<notin> set (i # is) \<longrightarrow> snd st' ! j = snd st ! j"
    using ih m by auto
  show ?case using len here rest' other b by simp
qed

lemma find_particle_dependencies_loop_sockets:
  "find_particle_dependencies_loop g socks is st = Inr st' \<Longrightarrow>
   set (sockets (fst st')) = set (sockets (fst st)) \<union> (\<Union>i\<in>set is. set (placeholder_sockets g (socks ! i)))"
proof (induction "is" arbitrary: st)
  case Nil
  then show ?case by simp
next
  case (Cons i "is")
  from Cons.prems obtain mid where step: "find_particle_dependencies_step g socks i (fst st, snd st) = Inr (fst mid, snd mid)"
    and rest: "find_particle_dependencies_loop g socks is mid = Inr st'"
    by (auto split: sum.splits)
  from find_particle_dependencies_step_Inr(4) [OF step]
  have "set (sockets (fst mid)) = set (sockets (fst st)) \<union> set (placeholder_sockets g (socks ! i))"
    by (simp add: set_add_multiple)
  with Cons.IH [OF rest] show ?case by auto
qed

text \<open>
  The size assertion holds, and the analysis completes, when the origins of the
  placeholders met are pairwise different.
\<close>

lemma find_particle_dependencies_step_total:
  assumes inv: "aligned g c"
    and i: "i < length socks" "i < length fl"
    and inj: "inj_on (origin_vsocket g) (set (sockets c) \<union> set (placeholder_sockets g (socks ! i)))"
  shows "\<exists>c'. find_particle_dependencies_step g socks i (c, fl) =
              Inr (c', fl[i := (placeholder_sockets g (socks ! i) \<noteq> [])])"
proof -
  from inv have v: "vsockets c = map (origin_vsocket g) (sockets c)"
    unfolding aligned_def by blast
  have "length (add_multiple (sockets c) (placeholder_sockets g (socks ! i))) =
        length (add_multiple (vsockets c) (map (origin_vsocket g) (placeholder_sockets g (socks ! i))))"
    using add_multiple_map [OF inj] v by simp
  with i show ?thesis
    by (simp add: find_particle_dependencies_step_def at_index_def set_index_def BLI_assert_def
      find_placeholder_dependencies_def PlaceholderDependencies_size_def Let_def)
qed

lemma find_particle_dependencies_loop_total:
  assumes "aligned g c"
    and "\<forall>i\<in>set is. i < length socks \<and> i < length fl"
    and "inj_on (origin_vsocket g) P"
    and "set (sockets c) \<subseteq> P"
    and "\<forall>i\<in>set is. set (placeholder_sockets g (socks ! i)) \<subseteq> P"
  shows "\<exists>st'. find_particle_dependencies_loop g socks is (c, fl) = Inr st'"
  using assms
proof (induction "is" arbitrary: c fl)
  case Nil
  then show ?case by simp
next
  case (Cons i "is")
  let ?ds = "placeholder_sockets g (socks ! i)"
  from Cons.prems have sub: "set (sockets c) \<union> set ?ds \<subseteq> P" by simp
  with Cons.prems(3) have inj: "inj_on (origin_vsocket g) (set (sockets c) \<union> set ?ds)"
    by (rule inj_on_subset)
  from Cons.prems(2) have i: "i < length socks" "i < length fl" by simp_all
  from find_particle_dependencies_step_total [OF Cons.prems(1) i inj]
  obtain c' where step: "find_particle_dependencies_step g socks i (c, fl) = Inr (c', fl[i := (?ds \<noteq> [])])"
    by blast
  have al: "aligned g c'"
    by (rule find_particle_dependencies_step_aligned [OF step Cons.prems(1)])
  have "sockets c' = add_multiple (sockets c) ?ds"
    by (rule find_particle_dependencies_step_Inr(4) [OF step])
  with sub have sub': "set (sockets c') \<subseteq> P"
    by (simp add: set_add_multiple)
  have "\<exists>st'. find_particle_dependencies_loop g socks is (c', fl[i := (?ds \<noteq> [])]) = Inr st'"
    using Cons.prems by (intro Cons.IH [OF al _ _ sub']) simp_all
  with step show ?case by simp
qed

text \<open>Two placeholders with one origin end the analysis in the size assertion.\<close>

lemma shared_origin_is_fatal:
  "find_particle_dependencies
     \<lparr>lookup_socket_ptr = (\<lambda>v. None),
      placeholder_sockets = (\<lambda>s. [DataSocket True 0, DataSocket True 1]),
      origin_vsocket = (\<lambda>s. 0),
      graph = 0\<rparr> [DataSocket False 4] [False] = Inl AssertionFailure"
  by (simp add: find_particle_dependencies_def find_particle_dependencies_step_def at_index_def
      set_index_def BLI_assert_def find_placeholder_dependencies_def PlaceholderDependencies_size_def
      SetVector_add_def Let_def)

text \<open>
  Claim C4. After each requested socket whose pass completes (the first k sockets, for
  every k), the combined dependency set has as many data sockets as virtual sockets, the
  virtual socket at every index is the origin of the data socket at that index, and
  neither collection holds a value twice; for every data graph, every list of requested
  sockets and every flag array passed in.
\<close>

theorem find_particle_dependencies_aligned:
  assumes "find_particle_dependencies_loop data_graph socks [0 ..< k]
             (\<lparr>sockets = [], vsockets = []\<rparr>, flags0) = Inr (combined, flags)"
  shows "length (sockets combined) = length (vsockets combined) \<and>
         (\<forall>i < length (sockets combined).
            vsockets combined ! i = origin_vsocket data_graph (sockets combined ! i)) \<and>
         distinct (sockets combined) \<and> distinct (vsockets combined)"
proof -
  have "aligned data_graph \<lparr>sockets = [], vsockets = []\<rparr>"
    by (simp add: aligned_def)
  with find_particle_dependencies_loop_aligned [OF assms] have "aligned data_graph combined"
    by simp
  then show ?thesis by (auto simp: aligned_def)
qed

theorem find_particle_dependencies_aligned_witness:
  "find_particle_dependencies_loop example_data_graph example_sockets [0 ..< 3]
     (\<lparr>sockets = [], vsockets = []\<rparr>, [False, False, False]) = Inr (example_dependencies, [True, False, True]) \<and>
   length (sockets example_dependencies) = length (vsockets example_dependencies) \<and>
   vsockets example_dependencies ! 2 = origin_vsocket example_data_graph (sockets example_dependencies ! 2) \<and>
   distinct (sockets example_dependencies) \<and> distinct (vsockets example_dependencies)"
proof -
  have three: "length example_sockets = 3" by (simp add: example_sockets_def)
  have run: "find_particle_dependencies_loop example_data_graph example_sockets [0 ..< 3]
     (\<lparr>sockets = [], vsockets = []\<rparr>, [False, False, False]) = Inr (example_dependencies, [True, False, True])"
    using example_analysis unfolding find_particle_dependencies_def three .
  note t = find_particle_dependencies_aligned [OF run]
  have two: "2 < length (sockets example_dependencies)" by (simp add: example_dependencies_def)
  from t have "vsockets example_dependencies ! 2 = origin_vsocket example_data_graph (sockets example_dependencies ! 2)"
    using two by blast
  with t run show ?thesis by blast
qed

text \<open>
  Claim C5. When the analysis returns, the flag array has kept its length and the flag
  of the i-th requested socket is set exactly when the placeholder dependencies the data
  graph reports for that socket are not empty; the flag depends on no other socket.
\<close>

theorem find_particle_dependencies_flags:
  assumes "find_particle_dependencies data_graph socks flags0 = Inr (dependencies, flags)"
  shows "length flags = length flags0 \<and>
         (\<forall>i < length socks. i < length flags \<and>
            flags ! i = (PlaceholderDependencies.sockets (find_placeholder_dependencies data_graph (socks ! i)) \<noteq> []))"
  using find_particle_dependencies_loop_flags [OF assms [unfolded find_particle_dependencies_def]]
  by (simp add: find_placeholder_dependencies_def)

theorem find_particle_dependencies_flags_witness:
  "find_particle_dependencies example_data_graph example_sockets [False, False, False] =
     Inr (example_dependencies, [True, False, True]) \<and>
   PlaceholderDependencies.sockets (find_placeholder_dependencies example_data_graph (example_sockets ! 0)) \<noteq> [] \<and>
   PlaceholderDependencies.sockets (find_placeholder_dependencies example_data_graph (example_sockets ! 1)) = [] \<and>
   PlaceholderDependencies.sockets (find_placeholder_dependencies example_data_graph (example_sockets ! 2)) \<noteq> []"
proof -
  note t = find_particle_dependencies_flags [OF example_analysis]
  have b: "0 < length example_sockets" "1 < length example_sockets" "2 < length example_sockets"
    by (simp_all add: example_sockets_def)
  from t b(1) have "[True, False, True] ! 0 =
      (PlaceholderDependencies.sockets (find_placeholder_dependencies example_data_graph (example_sockets ! 0)) \<noteq> [])"
    by blast
  moreover from t b(2) have "[True, False, True] ! 1 =
      (PlaceholderDependencies.sockets (find_placeholder_dependencies example_data_graph (example_sockets ! 1)) \<noteq> [])"
    by blast
  moreover from t b(3) have "[True, False, True] ! 2 =
      (PlaceholderDependencies.sockets (find_placeholder_dependencies example_data_graph (example_sockets ! 2)) \<noteq> [])"
    by blast
  ultimately show ?thesis using example_analysis by simp
qed

section \<open>The partition of the requested sockets\<close>

lemma partition_sockets_loop_Inr:
  "partition_sockets_loop socks flags is acc = Inr acc' \<Longrightarrow>
   fst acc' = fst acc @ map ((!) socks) (filter (\<lambda>i. flags ! i) is) \<and>
   snd acc' = snd acc @ map ((!) socks) (filter (\<lambda>i. \<not> flags ! i) is)"
  by (induction "is" arbitrary: acc)
     (auto simp: at_index_def split: if_splits)

lemma partition_sockets_loop_total:
  "\<forall>i\<in>set is. i < length flags \<and> i < length socks \<Longrightarrow>
   \<exists>acc'. partition_sockets_loop socks flags is acc = Inr acc'"
  by (induction "is" arbitrary: acc) (auto simp: at_index_def)

lemma merge_by_flags_partition:
  "length flags = length xs \<Longrightarrow>
   merge_by_flags flags (map fst (filter snd (zip xs flags)))
     (map fst (filter (\<lambda>p. \<not> snd p) (zip xs flags))) = Some xs"
  by (induction flags xs rule: list_induct2) auto

lemma map_nth_filter_upt:
  assumes "length flags = length xs"
  shows "map ((!) xs) (filter (\<lambda>i. P (flags ! i)) [0 ..< length xs]) =
         map fst (filter (\<lambda>p. P (snd p)) (zip xs flags))"
proof -
  have "zip xs flags = map (\<lambda>i. (xs ! i, flags ! i)) [0 ..< length xs]"
    using assms by (intro nth_equalityI) auto
  then show ?thesis
    by (simp add: filter_map comp_def)
qed

lemma partition_sockets_Inr:
  assumes "length flags = length socks"
  shows "partition_sockets socks flags =
           Inr (map ((!) socks) (filter (\<lambda>i. flags ! i) [0 ..< length socks]),
                map ((!) socks) (filter (\<lambda>i. \<not> flags ! i) [0 ..< length socks]))"
proof -
  from assms have "\<forall>i\<in>set [0 ..< length socks]. i < length flags \<and> i < length socks"
    by simp
  from partition_sockets_loop_total [OF this, of "([], [])"]
  obtain acc' where run: "partition_sockets_loop socks flags [0 ..< length socks] ([], []) = Inr acc'"
    by blast
  from partition_sockets_loop_Inr [OF run] run show ?thesis
    by (simp add: partition_sockets_def prod_eq_iff)
qed

lemma example_partition:
  "partition_sockets example_sockets [True, False, True] =
     Inr ([DataSocket False 4, DataSocket False 7], [DataSocket False 5])"
  by (simp add: partition_sockets_def example_sockets_def at_index_def upt_conv_Cons)

text \<open>
  Claim C3. For the requested sockets and the flag array the analyzer computed for them,
  the partition returns the sockets at the flagged positions and the sockets at the other
  positions, each in increasing position (the original relative order); the two lists
  share no socket, together they have as many elements as the request, and merging them
  guided by the flag array gives the requested list back.
\<close>

theorem partition_sockets_roundtrip:
  assumes run: "find_particle_dependencies data_graph socks flags0 = Inr (dependencies, flags)"
    and len0: "length flags0 = length socks"
  shows "\<exists>sockets_with_deps sockets_without_deps.
           partition_sockets socks flags = Inr (sockets_with_deps, sockets_without_deps) \<and>
           sockets_with_deps = map ((!) socks) (filter (\<lambda>i. flags ! i) [0 ..< length socks]) \<and>
           sockets_without_deps = map ((!) socks) (filter (\<lambda>i. \<not> flags ! i) [0 ..< length socks]) \<and>
           set sockets_with_deps \<inter> set sockets_without_deps = {} \<and>
           length sockets_with_deps + length sockets_without_deps = length socks \<and>
           merge_by_flags flags sockets_with_deps sockets_without_deps = Some socks"
proof -
  let ?w = "map ((!) socks) (filter (\<lambda>i. flags ! i) [0 ..< length socks])"
  let ?wo = "map ((!) socks) (filter (\<lambda>i. \<not> flags ! i) [0 ..< length socks])"
  note fl = find_particle_dependencies_loop_flags [OF run [unfolded find_particle_dependencies_def]]
  from fl len0 have len: "length flags = length socks" by simp
  from fl have val: "\<forall>i < length socks. flags ! i = (placeholder_sockets data_graph (socks ! i) \<noteq> [])"
    by simp
  have part: "partition_sockets socks flags = Inr (?w, ?wo)"
    by (rule partition_sockets_Inr [OF len])
  have w: "\<forall>s\<in>set ?w. placeholder_sockets data_graph s \<noteq> []"
    using val by auto
  have wo: "\<forall>s\<in>set ?wo. placeholder_sockets data_graph s = []"
    using val by auto
  from w wo have disj: "set ?w \<inter> set ?wo = {}" by blast
  have zw: "?w = map fst (filter snd (zip socks flags))"
    using map_nth_filter_upt [OF len, of "\<lambda>b. b"] by simp
  have zwo: "?wo = map fst (filter (\<lambda>p. \<not> snd p) (zip socks flags))"
    using map_nth_filter_upt [OF len, of "\<lambda>b. \<not> b"] by simp
  have merge: "merge_by_flags flags ?w ?wo = Some socks"
    unfolding zw zwo by (rule merge_by_flags_partition [OF len])
  have sum: "length ?w + length ?wo = length socks"
    using sum_length_filter_compl [of "\<lambda>i. flags ! i" "[0 ..< length socks]"] by simp
  from part disj sum merge show ?thesis by blast
qed

theorem partition_sockets_roundtrip_witness:
  "partition_sockets example_sockets [True, False, True] =
     Inr ([DataSocket False 4, DataSocket False 7], [DataSocket False 5]) \<and>
   set [DataSocket False 4, DataSocket False 7] \<inter> set [DataSocket False 5] = {} \<and>
   merge_by_flags [True, False, True] [DataSocket False 4, DataSocket False 7] [DataSocket False 5] =
     Some example_sockets"
proof -
  have len: "length [False, False, False] = length example_sockets"
    by (simp add: example_sockets_def)
  from partition_sockets_roundtrip [OF example_analysis len]
  obtain w wo where p: "partition_sockets example_sockets [True, False, True] = Inr (w, wo)"
    and d: "set w \<inter> set wo = {}"
    and m: "merge_by_flags [True, False, True] w wo = Some example_sockets"
    by blast
  from p example_partition have "w = [DataSocket False 4, DataSocket False 7]" "wo = [DataSocket False 5]"
    by simp_all
  with p d m show ?thesis by simp
qed


section \<open>The two functions and the providers\<close>

lemma create_input_providers_loop_Inr:
  "create_input_providers_loop vtree deps is provs = Inr provs' \<Longrightarrow>
   length provs' = length provs \<and>
   (\<forall>i\<in>set is. i < length (vsockets deps) \<and> i < length provs \<and>
      create_input_provider vtree (vsockets deps ! i) = Inr (provs' ! i)) \<and>
   (\<forall>j. j \<notin> set is \<longrightarrow> provs' ! j = provs ! j)"
proof (induction "is" arbitrary: provs)
  case Nil
  then show ?case by simp
next
  case (Cons i "is")
  from Cons.prems obtain p where b: "i < length (vsockets deps)" "i < length provs"
    and p: "create_input_provider vtree (vsockets deps ! i) = Inr p"
    and rest: "create_input_providers_loop vtree deps is (provs[i := p]) = Inr provs'"
    by (auto simp: at_index_def set_index_def split: if_splits sum.splits)
  note ih = Cons.IH [OF rest]
  from ih have len: "length provs' = length provs" by simp
  have here: "create_input_provider vtree (vsockets deps ! i) = Inr (provs' ! i)"
  proof (cases "i \<in> set is")
    case True
    with ih show ?thesis by blast
  next
    case False
    with ih have "provs' ! i = (provs[i := p]) ! i" by blast
    with b p show ?thesis by simp
  qed
  have rest': "\<forall>k\<in>set is. k < length (vsockets deps) \<and> k < length provs \<and>
      create_input_provider vtree (vsockets deps ! k) = Inr (provs' ! k)"
    using ih by simp
  have other: "\<forall>j. j \<notin> set (i # is) \<longrightarrow> provs' ! j = provs ! j"
    using ih by auto
  show ?case using len here rest' other b by simp
qed

lemma create_input_providers_loop_total:
  "\<forall>i\<in>set is. i < length (vsockets deps) \<and> i < length provs \<and>
      (\<exists>p. create_input_provider vtree (vsockets deps ! i) = Inr p) \<Longrightarrow>
   \<exists>provs'. create_input_providers_loop vtree deps is provs = Inr provs'"
  by (induction "is" arbitrary: provs) (auto simp: at_index_def set_index_def)

lemma create_function__with_deps_Inr:
  assumes "create_function__with_deps vtree g nm socks deps provs0 = Inr (fn, provs)"
  shows "length provs0 = length (sockets deps)"
    and "create_input_providers_loop vtree deps [0 ..< length (sockets deps)] provs0 = Inr provs"
    and "function_inputs fn = sockets deps"
    and "function_outputs fn = socks"
    and "function_name fn = nm"
    and "bodies fn =
           [TupleCallBody \<lparr>fgraph_graph = g, fgraph_inputs = sockets deps, fgraph_outputs = socks\<rparr>,
            LLVMBuildIRBody \<lparr>fgraph_graph = g, fgraph_inputs = sockets deps, fgraph_outputs = socks\<rparr>]"
  using assms
  by (auto simp: create_function__with_deps_def BLI_assert_def Let_def build_def add_inputs_def
      add_outputs_def new_FunctionBuilder_def fgraph_add_TupleCallBody_def
      fgraph_add_LLVMBuildIRBody_def split: if_splits sum.splits)

lemma example_with_deps:
  "create_function__with_deps example_vtree 0 ''Change Color Inputs''
     [DataSocket False 4, DataSocket False 7] example_dependencies [None, None, None] =
   Inr (fn_with_deps example_particle_function, input_providers example_particle_function)"
  by (simp add: create_function__with_deps_def BLI_assert_def Let_def example_dependencies_def
      example_particle_function_def example_fgraph_def at_index_def set_index_def
      create_input_provider_def example_vtree_def
      build_def add_inputs_def add_outputs_def new_FunctionBuilder_def fgraph_add_TupleCallBody_def
      fgraph_add_LLVMBuildIRBody_def upt_conv_Cons)

text \<open>
  Claim C10. The function without dependencies has exactly one body, the tuple-call
  (interpreted) one. Whenever the function with dependencies is built, it has exactly
  the tuple-call body and the LLVM (compiled) body, both over the same function graph:
  no path of the builder leaves the compiled body out.
\<close>

theorem execution_strategies:
  "bodies (create_function__without_deps g nm sockets_without_deps) =
     [TupleCallBody \<lparr>fgraph_graph = g, fgraph_inputs = [], fgraph_outputs = sockets_without_deps\<rparr>] \<and>
   (\<forall>fn providers.
      create_function__with_deps vtree g nm sockets_with_deps dependencies providers0 = Inr (fn, providers) \<longrightarrow>
      bodies fn =
        [TupleCallBody \<lparr>fgraph_graph = g, fgraph_inputs = sockets dependencies,
                         fgraph_outputs = sockets_with_deps\<rparr>,
         LLVMBuildIRBody \<lparr>fgraph_graph = g, fgraph_inputs = sockets dependencies,
                           fgraph_outputs = sockets_with_deps\<rparr>])"
proof -
  have "bodies (create_function__without_deps g nm sockets_without_deps) =
     [TupleCallBody \<lparr>fgraph_graph = g, fgraph_inputs = [], fgraph_outputs = sockets_without_deps\<rparr>]"
    by (simp add: create_function__without_deps_def Let_def build_def add_outputs_def
        new_FunctionBuilder_def fgraph_add_TupleCallBody_def)
  with create_function__with_deps_Inr(6) show ?thesis by blast
qed

theorem execution_strategies_witness:
  "bodies (create_function__without_deps 0 ''Change Color Inputs'' [DataSocket False 5]) =
     [TupleCallBody \<lparr>fgraph_graph = 0, fgraph_inputs = [], fgraph_outputs = [DataSocket False 5]\<rparr>] \<and>
   create_function__with_deps example_vtree 0 ''Change Color Inputs''
     [DataSocket False 4, DataSocket False 7] example_dependencies [None, None, None] =
     Inr (fn_with_deps example_particle_function, input_providers example_particle_function) \<and>
   bodies (fn_with_deps example_particle_function) =
     [TupleCallBody example_fgraph, LLVMBuildIRBody example_fgraph]"
proof -
  note t = execution_strategies [of 0 "''Change Color Inputs''" "[DataSocket False 5]" example_vtree
      "[DataSocket False 4, DataSocket False 7]" example_dependencies "[None, None, None]"]
  from t example_with_deps have "bodies (fn_with_deps example_particle_function) =
     [TupleCallBody \<lparr>fgraph_graph = 0, fgraph_inputs = sockets example_dependencies,
                      fgraph_outputs = [DataSocket False 4, DataSocket False 7]\<rparr>,
      LLVMBuildIRBody \<lparr>fgraph_graph = 0, fgraph_inputs = sockets example_dependencies,
                        fgraph_outputs = [DataSocket False 4, DataSocket False 7]\<rparr>]"
    by blast
  then have "bodies (fn_with_deps example_particle_function) =
     [TupleCallBody example_fgraph, LLVMBuildIRBody example_fgraph]"
    by (simp add: example_fgraph_def example_dependencies_def)
  with t example_with_deps show ?thesis by blast
qed

lemma create_input_provider_not_null: "create_input_provider vtree vsocket \<noteq> Inr None"
  by (simp add: create_input_provider_def BLI_assert_def Let_def)

lemma example_from_sockets:
  "create_particle_function_from_sockets example_vtree 0 ''Change Color Inputs'' example_sockets
     [True, False, True] example_dependencies = Inr (Value (Some example_particle_function))"
proof -
  have n: "replicate (length (sockets example_dependencies)) (None :: ParticleFunctionInputProvider option)
            = [None, None, None]"
    by (simp add: example_dependencies_def numeral_3_eq_3)
  have wo: "create_function__without_deps 0 ''Change Color Inputs'' [DataSocket False 5] =
            fn_without_deps example_particle_function"
    by (simp add: create_function__without_deps_def Let_def build_def add_outputs_def
        new_FunctionBuilder_def fgraph_add_TupleCallBody_def example_particle_function_def)
  show ?thesis
    unfolding create_particle_function_from_sockets_def example_partition n
    by (simp add: example_with_deps wo Let_def) (simp add: example_particle_function_def)
qed

text \<open>
  Claim C7. In every particle function that is constructed, the providers are as many as
  the data sockets of the dependency set, which are the inputs of the function with
  dependencies, and the provider at index i is the (non-null) provider the factory
  creates for the virtual socket at index i of the dependency set.
\<close>

theorem providers_index_aligned:
  assumes "create_particle_function_from_sockets vtree g nm socks flags dependencies = Inr (Value (Some pf))"
  shows "length (input_providers pf) = length (sockets dependencies) \<and>
         function_inputs (fn_with_deps pf) = sockets dependencies \<and>
         (\<forall>i < length (sockets dependencies).
            i < length (vsockets dependencies) \<and>
            input_providers pf ! i \<noteq> None \<and>
            create_input_provider vtree (vsockets dependencies ! i) = Inr (input_providers pf ! i))"
proof -
  from assms obtain w wo fn provs where
    wd: "create_function__with_deps vtree g nm w dependencies
           (replicate (length (sockets dependencies)) None) = Inr (fn, provs)"
    and pf: "input_providers pf = provs" "fn_with_deps pf = fn"
    by (auto simp: create_particle_function_from_sockets_def Let_def split: sum.splits prod.splits)
  note d = create_function__with_deps_Inr [OF wd]
  note l = create_input_providers_loop_Inr [OF d(2)]
  from l have len: "length provs = length (sockets dependencies)" by simp
  from l have each: "\<forall>i < length (sockets dependencies). i < length (vsockets dependencies) \<and>
      create_input_provider vtree (vsockets dependencies ! i) = Inr (provs ! i)"
    by simp
  have nonnull: "\<forall>i < length (sockets dependencies). provs ! i \<noteq> None"
  proof (intro allI impI)
    fix i assume "i < length (sockets dependencies)"
    with each have "create_input_provider vtree (vsockets dependencies ! i) = Inr (provs ! i)" by blast
    with create_input_provider_not_null [of vtree "vsockets dependencies ! i"]
    show "provs ! i \<noteq> None" by auto
  qed
  from len each nonnull d(3) pf show ?thesis by simp
qed

theorem providers_index_aligned_witness:
  "create_particle_function_from_sockets example_vtree 0 ''Change Color Inputs'' example_sockets
     [True, False, True] example_dependencies = Inr (Value (Some example_particle_function)) \<and>
   length (input_providers example_particle_function) = length (sockets example_dependencies) \<and>
   function_inputs (fn_with_deps example_particle_function) = sockets example_dependencies \<and>
   create_input_provider example_vtree (vsockets example_dependencies ! 1) =
     Inr (input_providers example_particle_function ! 1) \<and>
   input_providers example_particle_function ! 1 = Some (AttributeInputProvider ''Velocity'')"
proof -
  note t = providers_index_aligned [OF example_from_sockets]
  have one: "1 < length (sockets example_dependencies)" by (simp add: example_dependencies_def)
  from t one have "create_input_provider example_vtree (vsockets example_dependencies ! 1) =
     Inr (input_providers example_particle_function ! 1)"
    by blast
  moreover have "input_providers example_particle_function ! 1 = Some (AttributeInputProvider ''Velocity'')"
    by (simp add: example_particle_function_def)
  ultimately show ?thesis using t example_from_sockets by blast
qed


section \<open>The entry point\<close>

lemma create_input_provider_supported:
  "idname (node_at vtree (vnode (socket_at vtree vsocket))) \<in> {''bp_ParticleInfoNode'', ''bp_CollisionInfoNode''} \<Longrightarrow>
   \<exists>p. create_input_provider vtree vsocket = Inr p"
  by (auto simp: create_input_provider_def Let_def)

lemma create_particle_function_shape:
  "create_particle_function vtree vn data_graph = Inr r \<Longrightarrow> \<exists>pf. r = Value (Some pf)"
  by (auto simp: create_particle_function_def create_particle_function_from_sockets_def Let_def
      split: sum.splits prod.splits)

lemma create_particle_function_total:
  assumes inj: "inj_on (origin_vsocket data_graph)
                  (\<Union>s\<in>set (find_input_data_sockets vtree vn data_graph). set (placeholder_sockets data_graph s))"
    and sup: "\<forall>s\<in>set (find_input_data_sockets vtree vn data_graph).
                \<forall>p\<in>set (placeholder_sockets data_graph s).
                  idname (node_at vtree (vnode (socket_at vtree (origin_vsocket data_graph p))))
                    \<in> {''bp_ParticleInfoNode'', ''bp_CollisionInfoNode''}"
  shows "\<exists>pf. create_particle_function vtree vn data_graph = Inr (Value (Some pf))"
proof -
  let ?socks = "find_input_data_sockets vtree vn data_graph"
  let ?n = "length ?socks"
  let ?P = "\<Union>s\<in>set ?socks. set (placeholder_sockets data_graph s)"
  let ?empty = "\<lparr>sockets = [], vsockets = []\<rparr>"
  let ?flags0 = "replicate ?n False"
  have al0: "aligned data_graph ?empty" by (simp add: aligned_def)
  have sub: "\<forall>i\<in>set [0 ..< ?n]. set (placeholder_sockets data_graph (?socks ! i)) \<subseteq> ?P"
  proof
    fix i assume "i \<in> set [0 ..< ?n]"
    then have "?socks ! i \<in> set ?socks" by simp
    then show "set (placeholder_sockets data_graph (?socks ! i)) \<subseteq> ?P" by blast
  qed
  have bounds: "\<forall>i\<in>set [0 ..< ?n]. i < ?n \<and> i < length ?flags0" by simp
  have start: "set (sockets ?empty) \<subseteq> ?P" by simp
  have "\<exists>st'. find_particle_dependencies_loop data_graph ?socks [0 ..< ?n] (?empty, ?flags0) = Inr st'"
    by (rule find_particle_dependencies_loop_total [OF al0 bounds inj start sub])
  then obtain deps flags where
    loop: "find_particle_dependencies_loop data_graph ?socks [0 ..< ?n] (?empty, ?flags0) = Inr (deps, flags)"
    by auto
  then have an: "find_particle_dependencies data_graph ?socks ?flags0 = Inr (deps, flags)"
    by (simp add: find_particle_dependencies_def)
  from find_particle_dependencies_loop_aligned [OF loop] al0 have al: "aligned data_graph deps"
    by simp
  from find_particle_dependencies_loop_flags [OF loop] have len: "length flags = ?n"
    by simp
  from find_particle_dependencies_loop_sockets [OF loop] sub have inP: "set (sockets deps) \<subseteq> ?P"
    by simp blast
  from al have vs: "vsockets deps = map (origin_vsocket data_graph) (sockets deps)"
    unfolding aligned_def by blast
  have ok: "\<forall>i\<in>set [0 ..< length (sockets deps)]. i < length (vsockets deps) \<and>
      i < length (replicate (length (sockets deps)) (None :: ParticleFunctionInputProvider option)) \<and>
      (\<exists>p. create_input_provider vtree (vsockets deps ! i) = Inr p)"
  proof
    fix i assume "i \<in> set [0 ..< length (sockets deps)]"
    then have i: "i < length (sockets deps)" by simp
    then have "sockets deps ! i \<in> ?P" using inP by (meson nth_mem subsetD)
    with sup have "idname (node_at vtree (vnode (socket_at vtree (origin_vsocket data_graph (sockets deps ! i)))))
          \<in> {''bp_ParticleInfoNode'', ''bp_CollisionInfoNode''}"
      by blast
    from create_input_provider_supported [OF this] i vs
    show "i < length (vsockets deps) \<and>
      i < length (replicate (length (sockets deps)) (None :: ParticleFunctionInputProvider option)) \<and>
      (\<exists>p. create_input_provider vtree (vsockets deps ! i) = Inr p)"
      by simp
  qed
  from create_input_providers_loop_total [OF ok] obtain provs where
    provs: "create_input_providers_loop vtree deps [0 ..< length (sockets deps)]
              (replicate (length (sockets deps)) None) = Inr provs"
    by blast
  note part = partition_sockets_Inr [OF len]
  show ?thesis
    using an part provs
    by (simp add: create_particle_function_def create_particle_function_from_sockets_def
        create_function__with_deps_def BLI_assert_def Let_def)
qed

lemma example_create:
  "create_particle_function example_vtree 3 example_data_graph = Inr (Value (Some example_particle_function))"
proof -
  have nm: "VirtualNode.name (node_at example_vtree 3) @ '' Inputs'' = ''Change Color Inputs''"
    by (simp add: example_vtree_def)
  have g: "graph example_data_graph = 0" by (simp add: example_data_graph_def)
  have r: "replicate (length example_sockets) False = [False, False, False]"
    by (simp add: example_sockets_def numeral_3_eq_3)
  show ?thesis
    unfolding create_particle_function_def example_input_sockets
    by (simp add: r example_analysis nm g example_from_sockets Let_def)
qed

text \<open>
  Claim C9. The entry point never returns the error variant and never a null particle
  function. When the contract checks pass, that is, the placeholders the requested
  inputs depend on have pairwise different origins and every origin is a socket of a
  particle-info or a collision-info node, it returns the success variant with a particle
  function.
\<close>

theorem create_particle_function_result:
  "(\<forall>msg. create_particle_function vtree vn data_graph \<noteq> Inr (Error msg)) \<and>
   create_particle_function vtree vn data_graph \<noteq> Inr (Value None) \<and>
   (inj_on (origin_vsocket data_graph)
      (\<Union>s\<in>set (find_input_data_sockets vtree vn data_graph). set (placeholder_sockets data_graph s)) \<and>
    (\<forall>s\<in>set (find_input_data_sockets vtree vn data_graph).
       \<forall>p\<in>set (placeholder_sockets data_graph s).
         idname (node_at vtree (vnode (socket_at vtree (origin_vsocket data_graph p))))
           \<in> {''bp_ParticleInfoNode'', ''bp_CollisionInfoNode''}) \<longrightarrow>
    (\<exists>pf. create_particle_function vtree vn data_graph = Inr (Value (Some pf))))"
proof -
  have a: "\<forall>msg. create_particle_function vtree vn data_graph \<noteq> Inr (Error msg)"
    using create_particle_function_shape [of vtree vn data_graph] by auto
  have b: "create_particle_function vtree vn data_graph \<noteq> Inr (Value None)"
    using create_particle_function_shape [of vtree vn data_graph] by auto
  from a b create_particle_function_total [of data_graph vtree vn] show ?thesis
    by blast
qed

theorem create_particle_function_result_witness:
  "inj_on (origin_vsocket example_data_graph) {DataSocket True 0, DataSocket True 1, DataSocket True 2} \<and>
   create_particle_function example_vtree 3 example_data_graph = Inr (Value (Some example_particle_function))"
proof -
  have P: "(\<Union>s\<in>set (find_input_data_sockets example_vtree 3 example_data_graph).
              set (placeholder_sockets example_data_graph s)) =
           {DataSocket True 0, DataSocket True 1, DataSocket True 2}"
    unfolding example_input_sockets by (auto simp: example_sockets_def example_data_graph_def)
  have inj: "inj_on (origin_vsocket example_data_graph) {DataSocket True 0, DataSocket True 1, DataSocket True 2}"
    by (simp add: example_data_graph_def)
  have sup: "\<forall>s\<in>set (find_input_data_sockets example_vtree 3 example_data_graph).
       \<forall>p\<in>set (placeholder_sockets example_data_graph s).
         idname (node_at example_vtree (vnode (socket_at example_vtree (origin_vsocket example_data_graph p))))
           \<in> {''bp_ParticleInfoNode'', ''bp_CollisionInfoNode''}"
    unfolding example_input_sockets
    by (simp add: example_sockets_def example_data_graph_def example_vtree_def)
  from create_particle_function_result [of example_vtree 3 example_data_graph] inj sup
  have "\<exists>pf. create_particle_function example_vtree 3 example_data_graph = Inr (Value (Some pf))"
    unfolding P by blast
  with example_create inj show ?thesis by simp
qed

end
